theory Spec2Isabelle
  imports Complex_Main
begin
chapter \<open>The program\<close>

section \<open>Common types\<close>

text \<open>
  Coordinates and elevations are Python/numpy floats in the source; they are modelled
  as real numbers. Every concrete input evaluated below uses values on which double
  arithmetic is exact, so the model and the program agree there.
\<close>

datatype error =
  ValueError | RecursionError | IndexError | OverflowError | AttributeError | HTTPException nat

type_synonym point = "real \<times> real \<times> real"

type_synonym bounds = "real \<times> real \<times> real \<times> real \<times> real \<times> real"

text \<open>The values of the per-point attribute dictionary built by \<open>build_octree\<close>.\<close>

datatype attr_value = IntAttr int | FloatAttr real | ListAttr "nat list"

type_synonym attributes = "(string \<times> attr_value) list"

section \<open>Octree (lidar\_advanced.py, class OctreeNode)\<close>

text \<open>
  \<open>children\<close> is \<open>[None] * 8\<close> until \<open>subdivide\<close> fills all eight slots at once; the
  code only ever tests \<open>children[0] is None\<close>. The empty list stands for the eight
  \<open>None\<close> slots, a list of eight nodes for a subdivided node.
\<close>

datatype OctreeNode =
  OctreeNode (bounds: bounds) (level: nat) (points: "(point \<times> attributes) list")
    (children: "OctreeNode list") (point_count: nat) (max_points_per_node: nat)

definition OctreeNode_init :: "bounds \<Rightarrow> nat \<Rightarrow> OctreeNode" where
  "OctreeNode_init b l = OctreeNode b l [] [] 0 50000"

text \<open>\<open>octant |= 1\<close>, \<open>|= 2\<close>, \<open>|= 4\<close> set disjoint bits of 0, so the result is their sum.\<close>

fun get_octant :: "bounds \<Rightarrow> point \<Rightarrow> nat" where
  "get_octant (min_x, max_x, min_y, max_y, min_z, max_z) (x, y, z) =
     (let mid_x = (min_x + max_x) / 2;
          mid_y = (min_y + max_y) / 2;
          mid_z = (min_z + max_z) / 2
      in (if x \<ge> mid_x then 1 else 0) + (if y \<ge> mid_y then 2 else 0)
         + (if z \<ge> mid_z then 4 else 0))"

fun subdivide :: "bounds \<Rightarrow> nat \<Rightarrow> OctreeNode list" where
  "subdivide (min_x, max_x, min_y, max_y, min_z, max_z) l =
     (let mid_x = (min_x + max_x) / 2;
          mid_y = (min_y + max_y) / 2;
          mid_z = (min_z + max_z) / 2;
          octants = [
            (min_x, mid_x, min_y, mid_y, min_z, mid_z),
            (mid_x, max_x, min_y, mid_y, min_z, mid_z),
            (min_x, mid_x, mid_y, max_y, min_z, mid_z),
            (mid_x, max_x, mid_y, max_y, min_z, mid_z),
            (min_x, mid_x, min_y, mid_y, mid_z, max_z),
            (mid_x, max_x, min_y, mid_y, mid_z, max_z),
            (min_x, mid_x, mid_y, max_y, mid_z, max_z),
            (mid_x, max_x, mid_y, max_y, mid_z, max_z)]
      in map (\<lambda>b. OctreeNode_init b (l + 1)) octants)"

text \<open>
  \<open>insert\<close> (here \<open>insert_point\<close>) is recursive with no bound of its own. The first
  argument is the number of stack frames still available: Python raises \<open>RecursionError\<close>
  when they run out, which is the value \<open>None\<close>. \<open>redistribute\<close> is the loop
  \<open>for p, attr in self.points: self.children[octant].insert(p, attr)\<close>, run in the
  frame of the node being subdivided.
\<close>

fun insert_point :: "nat \<Rightarrow> OctreeNode \<Rightarrow> point \<Rightarrow> attributes \<Rightarrow> OctreeNode option"
  and redistribute :: "nat \<Rightarrow> bounds \<Rightarrow> OctreeNode list \<Rightarrow> (point \<times> attributes) list
                        \<Rightarrow> OctreeNode list option" where
  "insert_point 0 node p attrs = None"
| "insert_point (Suc d) (OctreeNode b l ps cs n m) p attrs =
     (case (if cs = [] \<and> length ps \<ge> m
            then map_option (\<lambda>kids. (kids, [])) (redistribute d b (subdivide b l) ps)
            else Some (cs, ps)) of
        None \<Rightarrow> None
      | Some (cs', ps') \<Rightarrow>
          if cs' \<noteq> [] then
            (case insert_point d (cs' ! get_octant b p) p attrs of
               None \<Rightarrow> None
             | Some k \<Rightarrow> Some (OctreeNode b l ps' (cs'[get_octant b p := k]) (n + 1) m))
          else Some (OctreeNode b l (ps' @ [(p, attrs)]) cs' (n + 1) m))"
| "redistribute d b kids [] = Some kids"
| "redistribute d b kids ((q, attr) # rest) =
     (case insert_point d (kids ! get_octant b q) q attr of
        None \<Rightarrow> None
      | Some k \<Rightarrow> redistribute d b (kids[get_octant b q := k]) rest)"

text \<open>The loop of \<open>build_octree\<close>: \<open>root.insert\<close> for each point in turn.\<close>

fun insert_all :: "nat \<Rightarrow> OctreeNode \<Rightarrow> (point \<times> attributes) list \<Rightarrow> OctreeNode option" where
  "insert_all d node [] = Some node"
| "insert_all d node ((p, attrs) # rest) =
     (case insert_point d node p attrs of None \<Rightarrow> None | Some node' \<Rightarrow> insert_all d node' rest)"

text \<open>LidarProcessor: \<open>self.points\<close> and the optional per-point columns.\<close>

record LidarProcessor =
  las_points :: "point list"
  intensity :: "real list option"
  classification :: "nat list option"
  colors :: "nat list list option"

definition point_attributes :: "LidarProcessor \<Rightarrow> nat \<Rightarrow> attributes" where
  "point_attributes self i =
     [(''index'', IntAttr (int i))]
     @ (case intensity self of None \<Rightarrow> [] | Some v \<Rightarrow> [(''intensity'', FloatAttr (v ! i))])
     @ (case classification self of None \<Rightarrow> []
        | Some v \<Rightarrow> [(''classification'', IntAttr (int (v ! i)))])
     @ (case colors self of None \<Rightarrow> [] | Some v \<Rightarrow> [(''color'', ListAttr (v ! i))])"

definition min_list_real :: "real list \<Rightarrow> real" where
  "min_list_real xs = fold min (tl xs) (hd xs)"

definition max_list_real :: "real list \<Rightarrow> real" where
  "max_list_real xs = fold max (tl xs) (hd xs)"

definition px :: "point \<Rightarrow> real" where "px p = fst p"
definition py :: "point \<Rightarrow> real" where "py p = fst (snd p)"
definition pz :: "point \<Rightarrow> real" where "pz p = snd (snd p)"

text \<open>
  \<open>build_octree\<close>: \<open>self.points.min(axis=0)\<close> raises \<open>ValueError\<close> on an empty array.
  \<open>max_level\<close> is accepted and never read, as in the source.
\<close>

definition build_octree :: "nat \<Rightarrow> LidarProcessor \<Rightarrow> nat \<Rightarrow> error + OctreeNode" where
  "build_octree d self max_level =
     (let pts = las_points self in
      if pts = [] then Inl ValueError
      else
        let root_node = OctreeNode_init
              (min_list_real (map px pts), max_list_real (map px pts),
               min_list_real (map py pts), max_list_real (map py pts),
               min_list_real (map pz pts), max_list_real (map pz pts)) 0
        in case insert_all d root_node
                  (map (\<lambda>i. (pts ! i, point_attributes self i)) [0..<length pts]) of
             None \<Rightarrow> Inl RecursionError
           | Some t \<Rightarrow> Inr t)"

subsection \<open>Count invariants and levels\<close>

text \<open>
  \<open>count_consistent\<close> is the property of claim C1 at every node of a tree;
  \<open>node_inv\<close> strengthens it with what a leaf satisfies, so that it is inductive.
\<close>

fun count_consistent :: "OctreeNode \<Rightarrow> bool" where
  "count_consistent (OctreeNode b l ps cs n m) =
     ((cs \<noteq> [] \<longrightarrow> sum_list (map point_count cs) = n) \<and> (\<forall>c \<in> set cs. count_consistent c))"

fun node_inv :: "OctreeNode \<Rightarrow> bool" where
  "node_inv (OctreeNode b l ps cs n m) =
     ((cs = [] \<longrightarrow> n = length ps) \<and>
      (cs \<noteq> [] \<longrightarrow> ps = [] \<and> length cs = 8 \<and> sum_list (map point_count cs) = n) \<and>
      (\<forall>c \<in> set cs. node_inv c))"

text \<open>The levels of all nodes of a tree.\<close>

fun tree_levels :: "OctreeNode \<Rightarrow> nat set" where
  "tree_levels (OctreeNode b l ps cs n m) = {l} \<union> (\<Union>c \<in> set cs. tree_levels c)"

section \<open>Tiles (lidar\_advanced.py, LidarProcessor.generate\_tiles)\<close>

text \<open>
  A tile is the dictionary with keys \<open>bounds\<close>, \<open>point_count\<close>, \<open>points\<close>, \<open>center\<close>;
  \<open>pts\<close> is \<open>self.points\<close>. The two \<open>while\<close> loops add \<open>tile_size\<close> until the upper bound is
  passed; with \<open>tile_size \<le> 0\<close> they never end, which is the value \<open>None\<close>. \<open>min(axis=0)\<close>
  raises \<open>ValueError\<close> on an empty array.
\<close>

record tile =
  tile_bounds :: "real \<times> real \<times> real \<times> real"
  tile_point_count :: nat
  tile_points :: "point list"
  tile_center :: "real \<times> real"

partial_function (option) tiles_y_loop ::
  "point list \<Rightarrow> real \<Rightarrow> real \<Rightarrow> real \<Rightarrow> real \<Rightarrow> tile list \<Rightarrow> tile list option" where
  "tiles_y_loop pts tile_size x y max_y tiles =
     (if y < max_y then
        let tile_pts = filter (\<lambda>p. px p \<ge> x \<and> px p < x + tile_size \<and>
                                   py p \<ge> y \<and> py p < y + tile_size) pts
        in tiles_y_loop pts tile_size x (y + tile_size) max_y
             (if length tile_pts > 0
              then tiles @ [\<lparr>tile_bounds = (x, x + tile_size, y, y + tile_size),
                             tile_point_count = length tile_pts,
                             tile_points = tile_pts,
                             tile_center = ((x + x + tile_size) / 2, (y + y + tile_size) / 2)\<rparr>]
              else tiles)
      else Some tiles)"

partial_function (option) tiles_x_loop ::
  "point list \<Rightarrow> real \<Rightarrow> real \<Rightarrow> real \<Rightarrow> real \<Rightarrow> real \<Rightarrow> tile list \<Rightarrow> tile list option" where
  "tiles_x_loop pts tile_size x min_y max_x max_y tiles =
     (if x < max_x then
        Option.bind (tiles_y_loop pts tile_size x min_y max_y tiles)
          (\<lambda>tiles'. tiles_x_loop pts tile_size (x + tile_size) min_y max_x max_y tiles')
      else Some tiles)"

declare tiles_y_loop.simps [code]
declare tiles_x_loop.simps [code]

definition generate_tiles :: "point list \<Rightarrow> real \<Rightarrow> (error + tile list) option" where
  "generate_tiles pts tile_size =
     (if pts = [] then Some (Inl ValueError)
      else map_option Inr
        (tiles_x_loop pts tile_size (min_list_real (map px pts)) (min_list_real (map py pts))
           (max_list_real (map px pts)) (max_list_real (map py pts)) []))"

text \<open>
  The sibling implementation in \<open>lidar - Copie.py\<close>: \<open>compute_tile_index\<close> and the loop
  \<open>tiles.setdefault((tx, ty), []).append(p)\<close> of its \<open>generate_tiles\<close>. \<open>int()\<close> truncates
  towards zero.
\<close>

definition TILE_SIZE :: real where
  "TILE_SIZE = 200"

definition py_int :: "real \<Rightarrow> int" where
  "py_int r = (if r \<ge> 0 then \<lfloor>r\<rfloor> else \<lceil>r\<rceil>)"

definition compute_tile_index :: "real \<Rightarrow> real \<Rightarrow> real \<Rightarrow> real \<Rightarrow> int \<times> int" where
  "compute_tile_index x y min_x min_y =
     (py_int ((x - min_x) / TILE_SIZE), py_int ((y - min_y) / TILE_SIZE))"

fun tile_buckets ::
  "point list \<Rightarrow> real \<Rightarrow> real \<Rightarrow> (int \<times> int \<rightharpoonup> point list) \<Rightarrow> (int \<times> int \<rightharpoonup> point list)" where
  "tile_buckets [] min_x min_y tiles = tiles"
| "tile_buckets (p # ps) min_x min_y tiles =
     (let k = compute_tile_index (px p) (py p) min_x min_y
      in tile_buckets ps min_x min_y
           (tiles(k \<mapsto> (case tiles k of None \<Rightarrow> [] | Some l \<Rightarrow> l) @ [p])))"

section \<open>Rasters (lidar\_advanced.py: generate\_dtm, generate\_dsm, \_fill\_nan\_grid)\<close>

text \<open>
  A grid cell is \<open>None\<close> for \<open>nan\<close>. \<open>fill_nan_grid\<close> is \<open>_fill_nan_grid\<close>:
  \<open>generic_filter(grid, fill_nan, size=3, mode='constant', cval=np.nan)\<close> replaces every
  cell by \<open>fill_nan\<close> of its 3 x 3 window (the cell itself included, cells outside the grid
  being \<open>nan\<close>), then the remaining \<open>nan\<close> cells take \<open>np.nanmean(filled)\<close>.
  \<open>nan_mean\<close> is both \<open>fill_nan\<close> and \<open>np.nanmean\<close>: the mean of the values that are not \<open>nan\<close>,
  \<open>nan\<close> when there is none.
\<close>

type_synonym grid = "real option list list"

record raster =
  grid :: grid
  resolution :: real
  raster_bounds :: "real \<times> real \<times> real \<times> real"
  shape :: "nat \<times> nat"

definition nrows :: "'a list list \<Rightarrow> nat" where
  "nrows g = length g"

definition ncols :: "'a list list \<Rightarrow> nat" where
  "ncols g = (case g of [] \<Rightarrow> 0 | r # _ \<Rightarrow> length r)"

definition padded_at :: "grid \<Rightarrow> int \<Rightarrow> int \<Rightarrow> real option" where
  "padded_at g j i =
     (if 0 \<le> j \<and> j < int (nrows g) \<and> 0 \<le> i \<and> i < int (ncols g)
      then g ! nat j ! nat i else None)"

definition nan_mean :: "real option list \<Rightarrow> real option" where
  "nan_mean values =
     (let valid = concat (map (\<lambda>v. case v of None \<Rightarrow> [] | Some r \<Rightarrow> [r]) values)
      in if length valid > 0 then Some (sum_list valid / real (length valid)) else None)"

definition window3 :: "grid \<Rightarrow> nat \<Rightarrow> nat \<Rightarrow> real option list" where
  "window3 g j i =
     concat (map (\<lambda>dj. map (\<lambda>di. padded_at g (int j + dj) (int i + di)) [-1, 0, 1]) [-1, 0, 1])"

definition generic_filter3 :: "grid \<Rightarrow> grid" where
  "generic_filter3 g =
     map (\<lambda>j. map (\<lambda>i. nan_mean (window3 g j i)) [0..<ncols g]) [0..<nrows g]"

definition fill_nan_grid :: "grid \<Rightarrow> grid" where
  "fill_nan_grid g =
     (let filled = generic_filter3 g;
          global_mean = nan_mean (concat filled)
      in map (map (\<lambda>c. case c of None \<Rightarrow> global_mean | Some v \<Rightarrow> Some v)) filled)"

text \<open>
  \<open>_extract_ground_simple\<close>: the lowest point of every non-empty cell, by two \<open>while\<close>
  loops that add \<open>cell_size\<close>. \<open>argmin\<close> takes the first of several lowest points.
\<close>

definition in_cell :: "real \<Rightarrow> real \<Rightarrow> real \<Rightarrow> point \<Rightarrow> bool" where
  "in_cell x y cell_size p =
     (px p \<ge> x \<and> px p < x + cell_size \<and> py p \<ge> y \<and> py p < y + cell_size)"

definition lowest_point :: "point list \<Rightarrow> point" where
  "lowest_point cell_points =
     fold (\<lambda>p best. if pz p < pz best then p else best) (tl cell_points) (hd cell_points)"

partial_function (option) ground_y_loop ::
  "point list \<Rightarrow> real \<Rightarrow> real \<Rightarrow> real \<Rightarrow> real \<Rightarrow> point list \<Rightarrow> point list option" where
  "ground_y_loop pts cell_size x y max_y ground_points =
     (if y < max_y then
        let cell_points = filter (in_cell x y cell_size) pts
        in ground_y_loop pts cell_size x (y + cell_size) max_y
             (if length cell_points > 0 then ground_points @ [lowest_point cell_points]
              else ground_points)
      else Some ground_points)"

partial_function (option) ground_x_loop ::
  "point list \<Rightarrow> real \<Rightarrow> real \<Rightarrow> real \<Rightarrow> real \<Rightarrow> real \<Rightarrow> point list \<Rightarrow> point list option" where
  "ground_x_loop pts cell_size x min_y max_x max_y ground_points =
     (if x < max_x then
        Option.bind (ground_y_loop pts cell_size x min_y max_y ground_points)
          (\<lambda>ground_points'. ground_x_loop pts cell_size (x + cell_size) min_y max_x max_y
                                ground_points')
      else Some ground_points)"

declare ground_y_loop.simps [code]
declare ground_x_loop.simps [code]

definition extract_ground_simple :: "point list \<Rightarrow> real \<Rightarrow> (error + point list) option" where
  "extract_ground_simple pts cell_size =
     (if pts = [] then Some (Inl ValueError)
      else map_option Inr
        (ground_x_loop pts cell_size (min_list_real (map px pts)) (min_list_real (map py pts))
           (max_list_real (map px pts)) (max_list_real (map py pts)) []))"

text \<open>
  \<open>extract_ground_points\<close>: the points of classification 2, or the fallback when the file
  has no classification. laspy columns have one entry per point.
\<close>

definition extract_ground_points :: "LidarProcessor \<Rightarrow> (error + point list) option" where
  "extract_ground_points self =
     (case classification self of
        None \<Rightarrow> extract_ground_simple (las_points self) 1
      | Some cls \<Rightarrow>
          Some (Inr (map fst (filter (\<lambda>(p, c). c = 2) (zip (las_points self) cls)))))"

text \<open>
  \<open>nx = int((max_x - min_x) / resolution) + 1\<close> and \<open>ny\<close>. With \<open>resolution = 0\<close> numpy yields
  \<open>nan\<close> or \<open>inf\<close> and \<open>int()\<close> raises \<open>ValueError\<close> or \<open>OverflowError\<close>; \<open>np.full\<close> raises
  \<open>ValueError\<close> on a negative dimension. A grid with no row is the empty list, whatever
  its number of columns.

  The quotient is taken in the reals. The code divides doubles, and a rounded quotient can
  fall on the other side of an integer than the exact one (\<open>nx\<close>, and the cell indices of
  \<open>dtm_point\<close> and \<open>dsm_point\<close>, can then differ by one): the model is the program where the
  quotients are exact, as on every input evaluated in this theory.
\<close>

definition grid_dims ::
  "real \<Rightarrow> real \<Rightarrow> real \<Rightarrow> real \<Rightarrow> real \<Rightarrow> error + int \<times> int" where
  "grid_dims min_x max_x min_y max_y res =
     (if res = 0 then Inl (if max_x - min_x = 0 then ValueError else OverflowError)
      else Inr (py_int ((max_x - min_x) / res) + 1, py_int ((max_y - min_y) / res) + 1))"

definition set_cell :: "grid \<Rightarrow> int \<Rightarrow> int \<Rightarrow> real \<Rightarrow> grid" where
  "set_cell g j i z = g[nat j := (g ! nat j)[nat i := Some z]]"

definition dtm_point :: "real \<Rightarrow> real \<Rightarrow> real \<Rightarrow> int \<Rightarrow> int \<Rightarrow> point \<Rightarrow> grid \<Rightarrow> grid" where
  "dtm_point min_x min_y res nx ny p dtm =
     (let i = py_int ((px p - min_x) / res);
          j = py_int ((py p - min_y) / res)
      in if 0 \<le> i \<and> i < nx \<and> 0 \<le> j \<and> j < ny then
           (case dtm ! nat j ! nat i of
              None \<Rightarrow> set_cell dtm j i (pz p)
            | Some v \<Rightarrow> if pz p < v then set_cell dtm j i (pz p) else dtm)
         else dtm)"

text \<open>
  \<open>generate_dtm\<close>. An empty ground array raises: \<open>IndexError\<close> on the one-dimensional
  \<open>np.array([])\<close> of the fallback, \<open>ValueError\<close> from \<open>min\<close> on an empty selection.
\<close>

definition generate_dtm :: "LidarProcessor \<Rightarrow> real \<Rightarrow> (error + raster) option" where
  "generate_dtm self res =
     (case extract_ground_points self of
        None \<Rightarrow> None
      | Some (Inl e) \<Rightarrow> Some (Inl e)
      | Some (Inr ground) \<Rightarrow>
          if ground = []
          then Some (Inl (if classification self = None then IndexError else ValueError))
          else
            let min_x = min_list_real (map px ground); min_y = min_list_real (map py ground);
                max_x = max_list_real (map px ground); max_y = max_list_real (map py ground)
            in case grid_dims min_x max_x min_y max_y res of
                 Inl e \<Rightarrow> Some (Inl e)
               | Inr (nx, ny) \<Rightarrow>
                   if nx < 0 \<or> ny < 0 then Some (Inl ValueError)
                   else
                     let dtm = fold (dtm_point min_x min_y res nx ny) ground
                                 (replicate (nat ny) (replicate (nat nx) None))
                     in Some (Inr \<lparr>grid = fill_nan_grid dtm, resolution = res,
                                     raster_bounds = (min_x, max_x, min_y, max_y),
                                     shape = (nat ny, nat nx)\<rparr>))"

text \<open>
  \<open>generate_dsm\<close>. The cell starts at \<open>-inf\<close>, below every elevation, and cells left at
  \<open>-inf\<close> become \<open>nan\<close>: both are \<open>None\<close> here.
\<close>

definition dsm_point :: "real \<Rightarrow> real \<Rightarrow> real \<Rightarrow> int \<Rightarrow> int \<Rightarrow> point \<Rightarrow> grid \<Rightarrow> grid" where
  "dsm_point min_x min_y res nx ny p dsm =
     (let i = py_int ((px p - min_x) / res);
          j = py_int ((py p - min_y) / res)
      in if 0 \<le> i \<and> i < nx \<and> 0 \<le> j \<and> j < ny then
           (case dsm ! nat j ! nat i of
              None \<Rightarrow> set_cell dsm j i (pz p)
            | Some v \<Rightarrow> if pz p > v then set_cell dsm j i (pz p) else dsm)
         else dsm)"

definition generate_dsm :: "LidarProcessor \<Rightarrow> real \<Rightarrow> error + raster" where
  "generate_dsm self res =
     (let pts = las_points self in
      if pts = [] then Inl ValueError
      else
        let min_x = min_list_real (map px pts); min_y = min_list_real (map py pts);
            max_x = max_list_real (map px pts); max_y = max_list_real (map py pts)
        in case grid_dims min_x max_x min_y max_y res of
             Inl e \<Rightarrow> Inl e
           | Inr (nx, ny) \<Rightarrow>
               if nx < 0 \<or> ny < 0 then Inl ValueError
               else
                 let dsm = fold (dsm_point min_x min_y res nx ny) pts
                             (replicate (nat ny) (replicate (nat nx) None))
                 in Inr \<lparr>grid = fill_nan_grid dsm, resolution = res,
                           raster_bounds = (min_x, max_x, min_y, max_y),
                           shape = (nat ny, nat nx)\<rparr>)"

subsection \<open>Building heights (calculate\_building\_heights)\<close>

text \<open>
  \<open>dsm['grid'] - dtm['grid']\<close> follows numpy broadcasting: two dimensions are compatible
  when they are equal or one of them is 1, and the subtraction raises \<open>ValueError\<close>
  otherwise. \<open>nan\<close> compares false with the threshold.

  \<open>label\<close> stands for \<open>scipy.ndimage.label\<close> with its default structuring element
  (4-connectivity): components are numbered from 1 in the order their first cell is met
  in a row-major scan. \<open>grow\<close> adds the neighbours inside the mask as many times as
  the grid has cells, which reaches the whole component.
\<close>

definition broadcast_dim :: "nat \<Rightarrow> nat \<Rightarrow> nat option" where
  "broadcast_dim a b =
     (if a = b then Some a else if a = 1 then Some b else if b = 1 then Some a else None)"

definition sub_cell :: "real option \<Rightarrow> real option \<Rightarrow> real option" where
  "sub_cell a b = (case (a, b) of (Some x, Some y) \<Rightarrow> Some (x - y) | _ \<Rightarrow> None)"

definition grid_sub :: "grid \<Rightarrow> grid \<Rightarrow> error + grid" where
  "grid_sub a b =
     (case (broadcast_dim (nrows a) (nrows b), broadcast_dim (ncols a) (ncols b)) of
        (Some r, Some c) \<Rightarrow>
          Inr (map (\<lambda>j. map (\<lambda>i.
                 sub_cell (a ! (if nrows a = 1 then 0 else j) ! (if ncols a = 1 then 0 else i))
                          (b ! (if nrows b = 1 then 0 else j) ! (if ncols b = 1 then 0 else i)))
                 [0..<c]) [0..<r])
      | _ \<Rightarrow> Inl ValueError)"

definition in_mask :: "bool list list \<Rightarrow> int \<times> int \<Rightarrow> bool" where
  "in_mask bmask c =
     (case c of (j, i) \<Rightarrow>
        0 \<le> j \<and> j < int (nrows bmask) \<and> 0 \<le> i \<and> i < int (ncols bmask)
        \<and> bmask ! nat j ! nat i)"

definition neighbours4 :: "int \<times> int \<Rightarrow> (int \<times> int) list" where
  "neighbours4 c = (case c of (j, i) \<Rightarrow> [(j - 1, i), (j, i - 1), (j, i + 1), (j + 1, i)])"

fun grow :: "bool list list \<Rightarrow> nat \<Rightarrow> (int \<times> int) list \<Rightarrow> (int \<times> int) list" where
  "grow bmask 0 found = found"
| "grow bmask (Suc k) found =
     grow bmask k (remdups (found @ filter (in_mask bmask) (concat (map neighbours4 found))))"

definition component :: "bool list list \<Rightarrow> int \<times> int \<Rightarrow> (int \<times> int) list" where
  "component bmask seed = grow bmask (nrows bmask * ncols bmask) [seed]"

definition all_cells :: "'a list list \<Rightarrow> (int \<times> int) list" where
  "all_cells g = concat (map (\<lambda>j. map (\<lambda>i. (int j, int i)) [0..<ncols g]) [0..<nrows g])"

definition label_step ::
  "bool list list \<Rightarrow> int \<times> int \<Rightarrow> nat list list \<times> nat \<Rightarrow> nat list list \<times> nat" where
  "label_step bmask c st =
     (case (c, st) of ((j, i), (labeled, num)) \<Rightarrow>
        if bmask ! nat j ! nat i \<and> labeled ! nat j ! nat i = 0 then
          (fold (\<lambda>(j', i') l. l[nat j' := (l ! nat j')[nat i' := num + 1]])
                (component bmask c) labeled, num + 1)
        else (labeled, num))"

definition label :: "bool list list \<Rightarrow> nat list list \<times> nat" where
  "label bmask =
     fold (label_step bmask) (all_cells bmask)
       (replicate (nrows bmask) (replicate (ncols bmask) 0), 0)"

text \<open>
  One pass of the loop over \<open>building_id\<close>: nothing for a component of fewer than 10
  cells (\<open>continue\<close>), its statistics otherwise. The key \<open>id\<close> is \<open>building_id\<close> here.
\<close>

record building =
  building_id :: nat
  area_cells :: nat
  area_m2 :: real
  height_min :: real
  height_max :: real
  height_mean :: real
  center_x :: real
  center_y :: real

text \<open>\<open>np.where(labeled == building_id)\<close>: the cells of a component, in row-major order.\<close>

definition component_cells :: "nat list list \<Rightarrow> nat \<Rightarrow> (int \<times> int) list" where
  "component_cells labeled bid =
     filter (\<lambda>(j, i). labeled ! nat j ! nat i = bid) (all_cells labeled)"

definition building_stats ::
  "raster \<Rightarrow> grid \<Rightarrow> nat list list \<Rightarrow> nat \<Rightarrow> building list" where
  "building_stats dtm height_model labeled bid =
     (let cells = component_cells labeled bid;
          count = length cells
      in if count < 10 then []
         else
           let heights = concat (map (\<lambda>(j, i). case height_model ! nat j ! nat i of
                                        None \<Rightarrow> [] | Some h \<Rightarrow> [h]) cells);
               y_indices = map (\<lambda>(j, i). real_of_int j) cells;
               x_indices = map (\<lambda>(j, i). real_of_int i) cells;
               (min_x, max_x, min_y, max_y) = raster_bounds dtm
           in [\<lparr>building_id = bid,
                 area_cells = count,
                 area_m2 = real count * resolution dtm ^ 2,
                 height_min = min_list_real heights,
                 height_max = max_list_real heights,
                 height_mean = sum_list heights / real (length heights),
                 center_x = sum_list x_indices / real count * resolution dtm + min_x,
                 center_y = sum_list y_indices / real count * resolution dtm + min_y\<rparr>])"

text \<open>\<open>building_mask = height_model > building_threshold\<close>, with the threshold of 2.0 metres.\<close>

definition building_threshold :: real where
  "building_threshold = 2"

definition building_mask :: "grid \<Rightarrow> bool list list" where
  "building_mask height_model =
     map (map (\<lambda>h. case h of None \<Rightarrow> False | Some v \<Rightarrow> v > building_threshold)) height_model"

definition calculate_building_heights :: "raster \<Rightarrow> raster \<Rightarrow> error + building list" where
  "calculate_building_heights dtm dsm =
     (case grid_sub (grid dsm) (grid dtm) of
        Inl e \<Rightarrow> Inl e
      | Inr height_model \<Rightarrow>
          let (labeled, num_buildings) = label (building_mask height_model)
          in Inr (concat (map (building_stats dtm height_model labeled)
                            [1..<num_buildings + 1])))"

text \<open>The 3 x 3 scenario of claim C3, and the three-point cloud used for claim C10.\<close>

definition dtm3 :: raster where
  "dtm3 = \<lparr>grid = replicate 3 (replicate 3 (Some 0)), resolution = 1,
            raster_bounds = (0, 2, 0, 2), shape = (3, 3)\<rparr>"

definition dsm3 :: raster where
  "dsm3 = \<lparr>grid = [[Some 0, Some 0, Some 0], [Some 0, Some 5, Some 0], [Some 0, Some 0, Some 0]],
            resolution = 1, raster_bounds = (0, 2, 0, 2), shape = (3, 3)\<rparr>"

definition cloud3 :: LidarProcessor where
  "cloud3 = \<lparr>las_points = [(0, 0, 0), (1, 0, 0), (2, 0, 6)], intensity = None,
              classification = Some [2, 2, 6], colors = None\<rparr>"

section \<open>Viewshed (simulation\_advanced.py, class ViewshedAnalyzer)\<close>











section \<open>Sampling (get\_lidar\_sample, load\_points, \_estimate\_point\_spacing)\<close>

text \<open>
  \<open>np.random.choice(n, k, replace=False)\<close> returns the first \<open>k\<close> entries of a permutation of
  \<open>range(n)\<close> drawn from numpy's global generator, and raises \<open>ValueError\<close> when \<open>k\<close> is
  negative or larger than \<open>n\<close>. No caller seeds the generator or passes one: the
  permutation drawn is the argument \<open>perm\<close> of every function below. \<open>take_indices\<close> is
  numpy's \<open>xs[indices]\<close>.
\<close>

definition random_choice :: "nat list \<Rightarrow> nat \<Rightarrow> int \<Rightarrow> error + nat list" where
  "random_choice perm n k =
     (if k < 0 \<or> int n < k then Inl ValueError else Inr (take (nat k) perm))"

definition take_indices :: "'a list \<Rightarrow> nat list \<Rightarrow> 'a list" where
  "take_indices xs indices = map (\<lambda>i. xs ! i) indices"

subsection \<open>lidar.py, get\_lidar\_sample\<close>

text \<open>The columns read from the LAS file, and the dictionary the endpoint returns.\<close>

record las_data =
  las_x :: "real list"
  las_y :: "real list"
  las_z :: "real list"
  las_classification :: "nat list option"
  las_intensity :: "nat list option"

record lidar_sample =
  sample_point_count :: int
  sample_x :: "real list"
  sample_y :: "real list"
  sample_z :: "real list"
  classifications :: "nat list option"
  intensities :: "nat list option"
  sample_bounds :: bounds

text \<open>
  The safety limit \<open>sample_size = min(sample_size, 50000, len(las.points))\<close> and the draw
  \<open>indices = np.random.choice(len(las.points), sample_size, replace=False)\<close>.
\<close>

definition clamp_sample_size :: "las_data \<Rightarrow> int \<Rightarrow> int" where
  "clamp_sample_size las sample_size = min sample_size (min 50000 (int (length (las_x las))))"

definition sample_indices :: "las_data \<Rightarrow> int \<Rightarrow> nat list \<Rightarrow> error + nat list" where
  "sample_indices las sample_size perm =
     random_choice perm (length (las_x las)) (clamp_sample_size las sample_size)"

text \<open>
  \<open>las.x[indices]\<close> is a \<open>ScaledArrayView\<close> of laspy 2 (the versions that have
  \<open>laspy.read\<close>), not a numpy array: it has no attribute \<open>tolist\<close>, and
  \<open>las.x[indices].tolist()\<close> raises \<open>AttributeError\<close>.
\<close>

definition scaled_view_tolist :: "real list \<Rightarrow> error + real list" where
  "scaled_view_tolist view = Inl AttributeError"

text \<open>
  \<open>get_lidar_sample\<close>: 404 when the database has no such file; every exception of the body
  becomes a 500 (\<open>except Exception\<close>): \<open>ValueError\<close> from the draw, \<open>AttributeError\<close> from
  \<open>tolist\<close>, \<open>las.x.min()\<close> on an empty file.
\<close>

definition get_lidar_sample :: "las_data option \<Rightarrow> int \<Rightarrow> nat list \<Rightarrow> error + lidar_sample" where
  "get_lidar_sample lidar sample_size perm =
     (case lidar of
        None \<Rightarrow> Inl (HTTPException 404)
      | Some las \<Rightarrow>
          (case sample_indices las sample_size perm of
             Inl e \<Rightarrow> Inl (HTTPException 500)
           | Inr indices \<Rightarrow>
               (case scaled_view_tolist (take_indices (las_x las) indices) of
                  Inl e \<Rightarrow> Inl (HTTPException 500)
                | Inr x \<Rightarrow>
               (case scaled_view_tolist (take_indices (las_y las) indices) of
                  Inl e \<Rightarrow> Inl (HTTPException 500)
                | Inr y \<Rightarrow>
               (case scaled_view_tolist (take_indices (las_z las) indices) of
                  Inl e \<Rightarrow> Inl (HTTPException 500)
                | Inr z \<Rightarrow>
                    if las_x las = [] then Inl (HTTPException 500)
                    else Inr \<lparr>sample_point_count = clamp_sample_size las sample_size,
                              sample_x = x, sample_y = y, sample_z = z,
                              classifications =
                                map_option (\<lambda>c. take_indices c indices) (las_classification las),
                              intensities =
                                map_option (\<lambda>c. take_indices c indices) (las_intensity las),
                              sample_bounds =
                                (min_list_real (las_x las), max_list_real (las_x las),
                                 min_list_real (las_y las), max_list_real (las_y las),
                                 min_list_real (las_z las), max_list_real (las_z las))\<rparr>)))))"

definition las3 :: las_data where
  "las3 = \<lparr>las_x = [0, 1, 2], las_y = [0, 0, 0], las_z = [5, 6, 7],
            las_classification = None, las_intensity = None\<rparr>"

subsection \<open>lidar - Copie.py, load\_points\<close>


subsection \<open>lidar\_advanced.py, \_estimate\_point\_spacing\<close>


chapter \<open>Properties\<close>

section \<open>Octree\<close>

subsection \<open>Octree: the counts where the insertions return\<close>

lemma get_octant_lt8: "get_octant b p < 8"
  by (cases b; cases p) (simp add: Let_def)

lemma length_subdivide: "length (subdivide b l) = 8"
  by (cases b) (simp add: Let_def)

lemma node_inv_init: "node_inv (OctreeNode_init b l)"
  by (simp add: OctreeNode_init_def)

lemma subdivide_inv: "c \<in> set (subdivide b l) \<Longrightarrow> node_inv c \<and> point_count c = 0"
  by (cases b) (auto simp add: Let_def OctreeNode_init_def)

lemma sum_subdivide: "sum_list (map point_count (subdivide b l)) = 0"
  by (cases b) (auto simp add: Let_def OctreeNode_init_def)

lemma sum_list_update_count:
  "i < length cs \<Longrightarrow> sum_list (map point_count (cs[i := k])) + point_count (cs ! i)
     = sum_list (map point_count cs) + point_count k"
  by (induction cs arbitrary: i) (auto split: nat.splits)

lemma insert_redistribute_inv:
  "(node_inv node \<longrightarrow> insert_point d node p attrs = Some node' \<longrightarrow>
      node_inv node' \<and> point_count node' = point_count node + 1)"
  "((\<forall>c \<in> set kids. node_inv c) \<longrightarrow> length kids = 8 \<longrightarrow> redistribute d b kids qs = Some kids' \<longrightarrow>
      (\<forall>c \<in> set kids'. node_inv c) \<and> length kids' = 8 \<and>
      sum_list (map point_count kids') = sum_list (map point_count kids) + length qs)"
proof (induction d node p attrs and d b kids qs arbitrary: node' and kids' rule: insert_point_redistribute.induct)
  case (1 node p attrs)
  then show ?case by simp
next
  case (2 d b l ps cs n m p attrs)
  show ?case
  proof (intro impI)
    assume inv: "node_inv (OctreeNode b l ps cs n m)"
    assume ins: "insert_point (Suc d) (OctreeNode b l ps cs n m) p attrs = Some node'"
    let ?o = "get_octant b p"
    show "node_inv node' \<and> point_count node' = point_count (OctreeNode b l ps cs n m) + 1"
    proof (cases "cs = [] \<and> m \<le> length ps")
      case True
      from ins True obtain kids where
        red: "redistribute d b (subdivide b l) ps = Some kids"
        by (auto split: option.splits)
      from "2.IH"(1)[OF True, of kids] red
      have kinv: "\<forall>c \<in> set kids. node_inv c" and klen: "length kids = 8"
        and ksum: "sum_list (map point_count kids) = length ps"
        by (auto simp: subdivide_inv length_subdivide sum_subdivide)
      from klen have ne: "kids \<noteq> []" by auto
      from ins True red ne obtain k where
        ik: "insert_point d (kids ! ?o) p attrs = Some k" and
        nd: "node' = OctreeNode b l [] (kids[?o := k]) (n + 1) m"
        by (auto split: option.splits)
      have olt: "?o < length kids" using klen get_octant_lt8[of b p] by simp
      then have "node_inv (kids ! ?o)" using kinv by simp
      with "2.IH"(2)[of "(kids, [])" kids "[]" k] True red ne ik
      have k: "node_inv k" "point_count k = point_count (kids ! ?o) + 1"
        by auto
      have kinv': "\<forall>c \<in> set (kids[?o := k]). node_inv c"
        using kinv k(1) by (auto dest: set_update_subset_insert[THEN subsetD])
      from sum_list_update_count[OF olt, of k] k(2)
      have "sum_list (map point_count (kids[?o := k])) = sum_list (map point_count kids) + 1"
        by simp
      moreover from inv True have "n = length ps" by simp
      ultimately show ?thesis using nd kinv' klen ksum ne by simp
    next
      case False
      show ?thesis
      proof (cases "cs = []")
        case True
        with False ins inv show ?thesis by auto
      next
        case ne: False
        with ins obtain k where
          ik: "insert_point d (cs ! ?o) p attrs = Some k" and
          nd: "node' = OctreeNode b l ps (cs[?o := k]) (n + 1) m"
          by (auto split: option.splits)
        from inv ne have kinv: "\<forall>c \<in> set cs. node_inv c" and klen: "length cs = 8"
          and ksum: "sum_list (map point_count cs) = n" and psn: "ps = []"
          by auto
        have olt: "?o < length cs" using klen get_octant_lt8[of b p] by simp
        then have "node_inv (cs ! ?o)" using kinv by simp
        with "2.IH"(2)[of "(cs, ps)" cs ps k] False ne ik
        have k: "node_inv k" "point_count k = point_count (cs ! ?o) + 1"
          by auto
        have kinv': "\<forall>c \<in> set (cs[?o := k]). node_inv c"
          using kinv k(1) by (auto dest: set_update_subset_insert[THEN subsetD])
        from sum_list_update_count[OF olt, of k] k(2)
        have "sum_list (map point_count (cs[?o := k])) = sum_list (map point_count cs) + 1"
          by simp
        then show ?thesis using nd kinv' klen ksum psn ne by simp
      qed
    qed
  qed
next
  case (3 d b kids)
  then show ?case by auto
next
  case (4 d b kids q attr rest)
  show ?case
  proof (intro impI)
    assume kinv: "\<forall>c \<in> set kids. node_inv c" and klen: "length kids = 8"
    assume red: "redistribute d b kids ((q, attr) # rest) = Some kids'"
    let ?o = "get_octant b q"
    from red obtain k where ik: "insert_point d (kids ! ?o) q attr = Some k"
      and red': "redistribute d b (kids[?o := k]) rest = Some kids'"
      by (auto split: option.splits)
    have olt: "?o < length kids" using klen get_octant_lt8[of b q] by simp
    then have "node_inv (kids ! ?o)" using kinv by simp
    with "4.IH"(1)[of k] ik have k: "node_inv k" "point_count k = point_count (kids ! ?o) + 1"
      by auto
    have kinv': "\<forall>c \<in> set (kids[?o := k]). node_inv c"
      using kinv k(1) by (auto dest: set_update_subset_insert[THEN subsetD])
    from "4.IH"(2)[OF ik, of kids'] kinv' klen red'
    have r: "(\<forall>c \<in> set kids'. node_inv c)" "length kids' = 8"
      "sum_list (map point_count kids') = sum_list (map point_count (kids[?o := k])) + length rest"
      by auto
    from sum_list_update_count[OF olt, of k] k(2)
    have "sum_list (map point_count (kids[?o := k])) = sum_list (map point_count kids) + 1"
      by simp
    with r show "(\<forall>c \<in> set kids'. node_inv c) \<and> length kids' = 8 \<and>
      sum_list (map point_count kids') = sum_list (map point_count kids) + length ((q, attr) # rest)"
      by simp
  qed
qed

lemma insert_all_inv:
  "node_inv node \<Longrightarrow> insert_all d node qs = Some node' \<Longrightarrow>
     node_inv node' \<and> point_count node' = point_count node + length qs"
proof (induction qs arbitrary: node)
  case Nil
  then show ?case by simp
next
  case (Cons q qs)
  obtain p attrs where q: "q = (p, attrs)" by (cases q)
  from Cons.prems(2) q obtain nd where i: "insert_point d node p attrs = Some nd"
    and r: "insert_all d nd qs = Some node'"
    by (auto split: option.splits)
  from insert_redistribute_inv(1)[of node d p attrs nd] Cons.prems(1) i
  have "node_inv nd" "point_count nd = point_count node + 1" by auto
  with Cons.IH[of nd] r show ?case by simp
qed

lemma node_inv_count_consistent: "node_inv t \<Longrightarrow> count_consistent t"
  by (induction t rule: count_consistent.induct) auto

text \<open>
  Whatever points are inserted one after the other into an empty root, if the
  insertions return then in the resulting tree every subdivided node's \<open>point_count\<close> is
  the sum of its children's, and the root's \<open>point_count\<close> is the number of points inserted.
\<close>

lemma insert_all_counts:
  assumes "points root_node = []" "children root_node = []" "point_count root_node = 0"
    and "insert_all d root_node qs = Some t"
  shows "count_consistent t \<and> point_count t = length qs"
proof -
  from assms(1-3) have "node_inv root_node" by (cases root_node) simp
  from insert_all_inv[OF this assms(4)] assms(3) show ?thesis
    by (simp add: node_inv_count_consistent)
qed

lemma subdivide_0_2:
  "subdivide (0, 2, 0, 2, 0, 2) 0 =
     [OctreeNode (0, 1, 0, 1, 0, 1) 1 [] [] 0 50000,
      OctreeNode (1, 2, 0, 1, 0, 1) 1 [] [] 0 50000,
      OctreeNode (0, 1, 1, 2, 0, 1) 1 [] [] 0 50000,
      OctreeNode (1, 2, 1, 2, 0, 1) 1 [] [] 0 50000,
      OctreeNode (0, 1, 0, 1, 1, 2) 1 [] [] 0 50000,
      OctreeNode (1, 2, 0, 1, 1, 2) 1 [] [] 0 50000,
      OctreeNode (0, 1, 1, 2, 1, 2) 1 [] [] 0 50000,
      OctreeNode (1, 2, 1, 2, 1, 2) 1 [] [] 0 50000]"
  by (simp add: Let_def OctreeNode_init_def)

lemma insert_all_two_points:
  "insert_all (Suc (Suc (Suc 0))) (OctreeNode (0, 2, 0, 2, 0, 2) 0 [] [] 0 1)
     [((0, 0, 0), []), ((2, 2, 2), [])] =
   Some (OctreeNode (0, 2, 0, 2, 0, 2) 0 []
     [OctreeNode (0, 1, 0, 1, 0, 1) 1 [((0, 0, 0), [])] [] 1 50000,
      OctreeNode (1, 2, 0, 1, 0, 1) 1 [] [] 0 50000,
      OctreeNode (0, 1, 1, 2, 0, 1) 1 [] [] 0 50000,
      OctreeNode (1, 2, 1, 2, 0, 1) 1 [] [] 0 50000,
      OctreeNode (0, 1, 0, 1, 1, 2) 1 [] [] 0 50000,
      OctreeNode (1, 2, 0, 1, 1, 2) 1 [] [] 0 50000,
      OctreeNode (0, 1, 1, 2, 1, 2) 1 [] [] 0 50000,
      OctreeNode (1, 2, 1, 2, 1, 2) 1 [((2, 2, 2), [])] [] 1 50000]
     2 1)"
  by (simp add: subdivide_0_2 del: subdivide.simps)

text \<open>
  A root whose capacity was set to 1 subdivides on the second point: the tree then has a
  subdivided node, and the lemma applies to it.
\<close>

lemma insert_all_counts_two_points:
  "insert_all (Suc (Suc (Suc 0))) (OctreeNode (0, 2, 0, 2, 0, 2) 0 [] [] 0 1)
     [((0, 0, 0), []), ((2, 2, 2), [])] =
   Some (OctreeNode (0, 2, 0, 2, 0, 2) 0 []
     [OctreeNode (0, 1, 0, 1, 0, 1) 1 [((0, 0, 0), [])] [] 1 50000,
      OctreeNode (1, 2, 0, 1, 0, 1) 1 [] [] 0 50000,
      OctreeNode (0, 1, 1, 2, 0, 1) 1 [] [] 0 50000,
      OctreeNode (1, 2, 1, 2, 0, 1) 1 [] [] 0 50000,
      OctreeNode (0, 1, 0, 1, 1, 2) 1 [] [] 0 50000,
      OctreeNode (1, 2, 0, 1, 1, 2) 1 [] [] 0 50000,
      OctreeNode (0, 1, 1, 2, 1, 2) 1 [] [] 0 50000,
      OctreeNode (1, 2, 1, 2, 1, 2) 1 [((2, 2, 2), [])] [] 1 50000]
     2 1)
   \<and> count_consistent (OctreeNode (0, 2, 0, 2, 0, 2) 0 []
     [OctreeNode (0, 1, 0, 1, 0, 1) 1 [((0, 0, 0), [])] [] 1 50000,
      OctreeNode (1, 2, 0, 1, 0, 1) 1 [] [] 0 50000,
      OctreeNode (0, 1, 1, 2, 0, 1) 1 [] [] 0 50000,
      OctreeNode (1, 2, 1, 2, 0, 1) 1 [] [] 0 50000,
      OctreeNode (0, 1, 0, 1, 1, 2) 1 [] [] 0 50000,
      OctreeNode (1, 2, 0, 1, 1, 2) 1 [] [] 0 50000,
      OctreeNode (0, 1, 1, 2, 1, 2) 1 [] [] 0 50000,
      OctreeNode (1, 2, 1, 2, 1, 2) 1 [((2, 2, 2), [])] [] 1 50000]
     2 1)"
  using insert_all_counts [OF _ _ _ insert_all_two_points] insert_all_two_points
  by simp

subsection \<open>Octree: coincident points (C1, C9)\<close>

lemma insert_point_leaf_room:
  "length ps < m \<Longrightarrow>
   insert_point (Suc d) (OctreeNode b l ps [] n m) p attrs =
     Some (OctreeNode b l (ps @ [(p, attrs)]) [] (n + 1) m)"
  by simp

lemma redistribute_fill:
  "length kids = 8 \<Longrightarrow> kids ! i = OctreeNode b' l' ps0 [] n0 m \<Longrightarrow> length ps0 + length qs \<le> m
   \<Longrightarrow> \<forall>q \<in> set qs. get_octant b (fst q) = i
   \<Longrightarrow> redistribute (Suc d) b kids qs =
         Some (kids[i := OctreeNode b' l' (ps0 @ qs) [] (n0 + length qs) m])"
proof (induction qs arbitrary: kids ps0 n0)
  case Nil
  have "kids[i := kids ! i] = kids" by simp
  then show ?case using Nil.prems(2) by simp
next
  case (Cons q qs)
  obtain p attrs where q: "q = (p, attrs)" by (cases q)
  from Cons.prems(4) q have o: "get_octant b p = i" by simp
  have ilt: "i < length kids" using o get_octant_lt8[of b p] Cons.prems(1) by simp
  from Cons.prems(3) have lt: "length ps0 < m" by simp
  let ?k = "OctreeNode b' l' (ps0 @ [(p, attrs)]) [] (n0 + 1) m"
  have "redistribute (Suc d) b kids (q # qs) = redistribute (Suc d) b (kids[i := ?k]) qs"
    using q o Cons.prems(2) lt by simp
  also have "\<dots> = Some ((kids[i := ?k])[i := OctreeNode b' l' ((ps0 @ [(p, attrs)]) @ qs) []
                        ((n0 + 1) + length qs) m])"
    using Cons.prems ilt by (intro Cons.IH) auto
  finally show ?case using q by simp
qed

lemma subdivide_fresh:
  "c \<in> set (subdivide b l) \<Longrightarrow> c = OctreeNode (bounds c) (Suc l) [] [] 0 50000"
  by (cases b) (auto simp add: Let_def OctreeNode_init_def)

lemma subdivide_nth:
  "i < 8 \<Longrightarrow> \<exists>b'. subdivide b l ! i = OctreeNode b' (Suc l) [] [] 0 50000"
  using subdivide_fresh[of "subdivide b l ! i" b l] length_subdivide[of b l]
  by (metis nth_mem)

lemma insert_point_full_same_point:
  "length ps = 50000 \<Longrightarrow> \<forall>q \<in> set ps. fst q = p \<Longrightarrow>
   insert_point d (OctreeNode b l ps [] n 50000) p attrs = None"
proof (induction d arbitrary: b l n)
  case 0
  then show ?case by simp
next
  case (Suc d)
  let ?i = "get_octant b p"
  have i8: "?i < 8" by (rule get_octant_lt8)
  show ?case
  proof (cases d)
    case 0
    from Suc.prems(1) obtain q qs where "ps = q # qs" by (cases ps) auto
    then have "redistribute 0 b (subdivide b l) ps = None" by (cases q) simp
    with 0 Suc.prems(1) show ?thesis by simp
  next
    case (Suc d')
    from subdivide_nth[OF i8, of b l] obtain b' where
      nth: "subdivide b l ! ?i = OctreeNode b' (Suc l) [] [] 0 50000" by blast
    have red: "redistribute (Suc d') b (subdivide b l) ps =
        Some ((subdivide b l)[?i := OctreeNode b' (Suc l) ([] @ ps) [] (0 + length ps) 50000])"
      using Suc.prems by (intro redistribute_fill) (auto simp: length_subdivide nth)
    let ?kids = "(subdivide b l)[?i := OctreeNode b' (Suc l) ps [] 50000 50000]"
    have ne: "?kids \<noteq> []" using length_subdivide[of b l] by auto
    have nth': "?kids ! ?i = OctreeNode b' (Suc l) ps [] 50000 50000"
      using i8 by (simp add: length_subdivide)
    have "insert_point d (?kids ! ?i) p attrs = None"
      unfolding nth' using Suc.prems by (rule Suc.IH)
    then show ?thesis using red Suc.prems(1) ne \<open>d = Suc d'\<close>
      by (simp del: subdivide.simps)
  qed
qed

lemma insert_all_fill:
  "length ps0 + length qs \<le> m \<Longrightarrow>
   insert_all (Suc d) (OctreeNode b l ps0 [] n0 m) qs =
     Some (OctreeNode b l (ps0 @ qs) [] (n0 + length qs) m)"
proof (induction qs arbitrary: ps0 n0)
  case Nil
  then show ?case by simp
next
  case (Cons q qs)
  obtain p attrs where q: "q = (p, attrs)" by (cases q)
  from Cons.prems have "length (ps0 @ [(p, attrs)]) + length qs \<le> m" by simp
  from Cons.IH[OF this, of "n0 + 1"] Cons.prems q show ?case by simp
qed

lemma insert_all_append:
  "insert_all d node (xs @ ys) =
     (case insert_all d node xs of None \<Rightarrow> None | Some node' \<Rightarrow> insert_all d node' ys)"
  by (induction xs arbitrary: node) (auto split: option.splits)

lemma insert_all_overflow:
  assumes "length qs = 50000" and "\<forall>q \<in> set qs. fst q = p"
  shows "insert_all d (OctreeNode b l [] [] 0 50000) (qs @ [(p, attrs)]) = None"
proof (cases d)
  case 0
  from assms(1) obtain q qs' where "qs = q # qs'" by (cases qs) auto
  with 0 show ?thesis by (cases q) simp
next
  case (Suc d')
  have "insert_all (Suc d') (OctreeNode b l [] [] 0 50000) qs =
      Some (OctreeNode b l ([] @ qs) [] (0 + length qs) 50000)"
    using assms(1) by (intro insert_all_fill) simp
  moreover have "insert_point (Suc d') (OctreeNode b l qs [] 50000 50000) p attrs = None"
    using assms by (rule insert_point_full_same_point)
  ultimately show ?thesis using Suc assms(1) by (simp add: insert_all_append)
qed


lemma build_octree_same_point:
  assumes "length (las_points self) = Suc 50000" and "\<forall>q \<in> set (las_points self). q = p"
  shows "build_octree d self max_level = Inl RecursionError"
proof -
  let ?pts = "las_points self"
  let ?f = "\<lambda>i. (?pts ! i, point_attributes self i)"
  let ?qs = "map ?f [0..<50000]"
  have ne: "?pts \<noteq> []" using assms(1) by auto
  have upt: "[0..<Suc 50000] = [0..<50000] @ [50000]"
    by (rule upt_Suc_append) simp
  have "?pts ! 50000 \<in> set ?pts" using assms(1) by (intro nth_mem) simp
  then have last: "?pts ! 50000 = p" using assms(2) by blast
  have split: "map ?f [0..<length ?pts] = ?qs @ [(p, point_attributes self 50000)]"
    unfolding assms(1) upt map_append using last by (simp del: upt_rec_numeral)
  have len: "length ?qs = 50000" by (simp del: upt_rec_numeral)
  have same: "\<forall>q \<in> set ?qs. fst q = p" using assms by (auto simp del: upt_rec_numeral)
  show ?thesis
    unfolding build_octree_def Let_def OctreeNode_init_def split
    using ne insert_all_overflow[OF len same] by (simp del: upt_rec_numeral)
qed

text \<open>
  C9. Octree construction does not terminate for every finite input: on 50001 points with
  the same coordinates \<open>build_octree\<close> returns no tree, however many stack frames it is
  given. The 50001st insertion subdivides the full root, moves its 50000 points into one
  child, and finds that child full again, at every depth. \<open>max_level\<close> (10 here, its
  default) is never consulted.
\<close>

theorem build_octree_coincident_points_no_result:
  "build_octree d \<lparr>las_points = replicate 50001 (0, 0, 0), intensity = None,
      classification = None, colors = None\<rparr> 10 = Inl RecursionError"
  by (rule build_octree_same_point[where p = "(0, 0, 0)"]) simp_all

subsection \<open>Octree: depth (C4)\<close>
lemma subdivide_cube_0:
  "subdivide (0, w, 0, w, 0, w) k ! 0 = OctreeNode (0, w / 2, 0, w / 2, 0, w / 2) (Suc k) [] [] 0 50000"
  by (simp add: Let_def OctreeNode_init_def)

lemma subdivide_cube_1:
  "subdivide (0, w, 0, w, 0, w) k ! 1 = OctreeNode (w / 2, w, 0, w / 2, 0, w / 2) (Suc k) [] [] 0 50000"
  by (simp add: Let_def OctreeNode_init_def)

lemma subdivide_cube_7:
  "subdivide (0, w, 0, w, 0, w) k ! 7 = OctreeNode (w / 2, w, w / 2, w, w / 2, w) (Suc k) [] [] 0 50000"
  by (simp add: Let_def OctreeNode_init_def)

lemma get_octant_origin: "0 < w \<Longrightarrow> get_octant (0, w, 0, w, 0, w) (0, 0, 0) = 0"
  by simp

lemma get_octant_low: "0 < q \<Longrightarrow> 2 * q < w \<Longrightarrow> get_octant (0, w, 0, w, 0, w) (q, 0, 0) = 0"
  by simp

lemma get_octant_mid: "0 < q \<Longrightarrow> get_octant (0, 2 * q, 0, 2 * q, 0, 2 * q) (q, 0, 0) = 1"
  by simp

lemma subdivide_nonempty: "subdivide b k \<noteq> []"
  using length_subdivide[of b k] by auto

lemma tree_levels_child:
  "i < length cs \<Longrightarrow> x \<in> tree_levels (cs ! i) \<Longrightarrow> x \<in> tree_levels (OctreeNode b l ps cs n m)"
  by (auto intro: nth_mem)

text \<open>Subdividing a full cube of points at the origin: they all land in child 0.\<close>

lemma redistribute_origin_cube:
  assumes "length ps = 50000" "\<forall>x \<in> set ps. fst x = (0, 0, 0)" "0 < w"
  shows "redistribute (Suc d) (0, w, 0, w, 0, w) (subdivide (0, w, 0, w, 0, w) k) ps =
     Some ((subdivide (0, w, 0, w, 0, w) k)
             [0 := OctreeNode (0, w / 2, 0, w / 2, 0, w / 2) (Suc k) ps [] 50000 50000])"
proof -
  have "redistribute (Suc d) (0, w, 0, w, 0, w) (subdivide (0, w, 0, w, 0, w) k) ps =
     Some ((subdivide (0, w, 0, w, 0, w) k)
             [0 := OctreeNode (0, w / 2, 0, w / 2, 0, w / 2) (Suc k) ([] @ ps) [] (0 + length ps) 50000])"
    using assms
    by (intro redistribute_fill) (auto simp: length_subdivide subdivide_cube_0 simp del: subdivide.simps)
  then show ?thesis using assms(1) by simp
qed

lemma insert_point_descends:
  assumes "length ps = 50000" "\<forall>x \<in> set ps. fst x = (0, 0, 0)" "0 < q"
  shows "\<exists>t. insert_point (Suc (Suc j) + d)
            (OctreeNode (0, q * 2 ^ Suc j, 0, q * 2 ^ Suc j, 0, q * 2 ^ Suc j) k ps [] n 50000)
            (q, 0, 0) attrs = Some t \<and> k + j + 1 \<in> tree_levels t"
proof (induction j arbitrary: k n)
  case 0
  let ?b = "(0, 2 * q, 0, 2 * q, 0, 2 * q)"
  let ?kids = "(subdivide ?b k)[0 := OctreeNode (0, 2 * q / 2, 0, 2 * q / 2, 0, 2 * q / 2) (Suc k) ps [] 50000 50000]"
  let ?leaf = "OctreeNode (2 * q / 2, 2 * q, 0, 2 * q / 2, 0, 2 * q / 2) (Suc k) [((q, 0, 0), attrs)] [] 1 50000"
  have red: "redistribute (Suc d) ?b (subdivide ?b k) ps = Some ?kids"
    using assms by (intro redistribute_origin_cube) auto
  have len: "length ?kids = 8" by (simp add: length_subdivide del: subdivide.simps)
  have nth1: "?kids ! 1 = OctreeNode (2 * q / 2, 2 * q, 0, 2 * q / 2, 0, 2 * q / 2) (Suc k) [] [] 0 50000"
    using subdivide_cube_1[of "2 * q" k] by (simp del: subdivide.simps)
  have ins: "insert_point (Suc (Suc d)) (OctreeNode ?b k ps [] n 50000) (q, 0, 0) attrs
      = Some (OctreeNode ?b k [] (?kids[1 := ?leaf]) (n + 1) 50000)"
    using assms(1) red len nth1 get_octant_mid[OF assms(3)] subdivide_nonempty[of ?b k]
    by (simp del: subdivide.simps get_octant.simps)
  have "Suc k \<in> tree_levels ((?kids[1 := ?leaf]) ! 1)" using len by simp
  then have "Suc k \<in> tree_levels (OctreeNode ?b k [] (?kids[1 := ?leaf]) (n + 1) 50000)"
    using len by (intro tree_levels_child[of 1]) auto
  with ins have "\<exists>t. insert_point (Suc (Suc d)) (OctreeNode ?b k ps [] n 50000) (q, 0, 0) attrs
      = Some t \<and> Suc k \<in> tree_levels t"
    by blast
  moreover have "q * 2 ^ Suc 0 = 2 * q" "Suc (Suc 0) + d = Suc (Suc d)" "k + 0 + 1 = Suc k"
    by simp_all
  ultimately show ?case by (simp only:)
next
  case (Suc j)
  let ?w = "q * 2 ^ Suc (Suc j)"
  let ?b = "(0, ?w, 0, ?w, 0, ?w)"
  let ?full = "OctreeNode (0, ?w / 2, 0, ?w / 2, 0, ?w / 2) (Suc k) ps [] 50000 50000"
  let ?kids = "(subdivide ?b k)[0 := ?full]"
  have w: "0 < ?w" using assms(3) by simp
  have red: "redistribute (Suc (Suc j) + d) ?b (subdivide ?b k) ps = Some ?kids"
    using redistribute_origin_cube[OF assms(1,2) w, of "Suc j + d" k] by simp
  have len: "length ?kids = 8" by (simp add: length_subdivide del: subdivide.simps)
  have half: "?w / 2 = q * 2 ^ Suc j" by simp
  have "(1::real) \<le> 2 ^ j" by simp
  then have "(1::real) < 2 * 2 ^ j" by linarith
  then have "q * 1 < q * (2 * 2 ^ j)" using assms(3) by (rule mult_strict_left_mono)
  then have lt: "2 * q < ?w" by simp
  have oct: "get_octant ?b (q, 0, 0) = 0"
    using assms(3) lt by (rule get_octant_low)
  from Suc.IH[of "Suc k" 50000] obtain t where
    t: "insert_point (Suc (Suc j) + d) ?full (q, 0, 0) attrs = Some t"
    and lv: "Suc k + j + 1 \<in> tree_levels t"
    unfolding half by blast
  have ins: "insert_point (Suc (Suc (Suc j)) + d) (OctreeNode ?b k ps [] n 50000) (q, 0, 0) attrs
      = Some (OctreeNode ?b k [] (?kids[0 := t]) (n + 1) 50000)"
    using assms(1) red len oct t subdivide_nonempty[of ?b k]
    by (simp del: subdivide.simps get_octant.simps power_Suc)
  have "Suc k + j + 1 \<in> tree_levels ((?kids[0 := t]) ! 0)" using len lv by simp
  then have "Suc k + j + 1 \<in> tree_levels (OctreeNode ?b k [] (?kids[0 := t]) (n + 1) 50000)"
    using len by (intro tree_levels_child[of 0]) auto
  with ins have "\<exists>t. insert_point (Suc (Suc (Suc j)) + d) (OctreeNode ?b k ps [] n 50000)
      (q, 0, 0) attrs = Some t \<and> Suc k + j + 1 \<in> tree_levels t"
    by blast
  moreover have "k + Suc j + 1 = Suc k + j + 1" by simp
  ultimately show ?case by (simp only:)
qed

lemma insert_all_deep:
  assumes "length qs = 50000" "\<forall>x \<in> set qs. fst x = (0, 0, 0)"
  shows "\<exists>t. insert_all (12 + d) (OctreeNode (0, 1, 0, 1, 0, 1) 0 [] [] 0 50000)
            (qs @ [((1, 1, 1), a1), ((1 / 2048, 0, 0), a2)]) = Some t \<and> 11 \<in> tree_levels t"
proof -
  let ?b = "(0, 1, 0, 1, 0, 1) :: bounds"
  let ?full = "OctreeNode (0, 1 / 2, 0, 1 / 2, 0, 1 / 2) (Suc 0) qs [] 50000 50000"
  let ?leaf = "OctreeNode (1 / 2, 1, 1 / 2, 1, 1 / 2, 1) (Suc 0) [((1, 1, 1), a1)] [] 1 50000"
  let ?kids = "(subdivide ?b 0)[0 := ?full]"
  let ?kids' = "?kids[7 := ?leaf]"
  define D where "D = Suc (Suc 9) + d"
  have D: "12 + d = Suc D" by (simp add: D_def)
  obtain D' where D': "D = Suc D'" by (simp add: D_def)
  have fill: "insert_all (Suc D) (OctreeNode ?b 0 [] [] 0 50000) qs =
      Some (OctreeNode ?b 0 ([] @ qs) [] (0 + length qs) 50000)"
    using assms(1) by (intro insert_all_fill) simp
  have red: "redistribute D ?b (subdivide ?b 0) qs = Some ?kids"
    unfolding D' using redistribute_origin_cube[OF assms, of 1 D' 0] by simp
  have len: "length ?kids = 8" by (simp add: length_subdivide del: subdivide.simps)
  have nth7: "?kids ! 7 = OctreeNode (1 / 2, 1, 1 / 2, 1, 1 / 2, 1) (Suc 0) [] [] 0 50000"
    using subdivide_cube_7[of 1 0] by (simp del: subdivide.simps)
  have oct7: "get_octant ?b (1, 1, 1) = 7" by simp
  have leafF: "insert_point D (OctreeNode (1 / 2, 1, 1 / 2, 1, 1 / 2, 1) (Suc 0) [] [] 0 50000)
      (1, 1, 1) a1 = Some ?leaf"
    unfolding D' by simp
  have insF: "insert_point (Suc D) (OctreeNode ?b 0 qs [] 50000 50000) (1, 1, 1) a1 =
      Some (OctreeNode ?b 0 [] ?kids' 50001 50000)"
    using assms(1) red len nth7 oct7 subdivide_nonempty[of ?b 0] leafF
    by (simp del: subdivide.simps get_octant.simps)
  have octQ: "get_octant ?b (1 / 2048, 0, 0) = 0" by simp
  have nth0: "?kids' ! 0 = ?full" using len by simp
  have half: "(1 / 2048) * 2 ^ Suc 9 = (1 / 2 :: real)" by simp
  from insert_point_descends[OF assms, of "1 / 2048" 9 d "Suc 0" 50000 a2]
  obtain t where t: "insert_point D ?full (1 / 2048, 0, 0) a2 = Some t"
    and lv: "Suc 0 + 9 + 1 \<in> tree_levels t"
    unfolding half D_def by auto
  have ne: "?kids' \<noteq> []" using len by auto
  have insQ: "insert_point (Suc D) (OctreeNode ?b 0 [] ?kids' 50001 50000) (1 / 2048, 0, 0) a2 =
      Some (OctreeNode ?b 0 [] (?kids'[0 := t]) 50002 50000)"
    using octQ nth0 t ne by (simp del: subdivide.simps get_octant.simps)
  have "11 \<in> tree_levels ((?kids'[0 := t]) ! 0)" using len lv by simp
  then have "11 \<in> tree_levels (OctreeNode ?b 0 [] (?kids'[0 := t]) 50002 50000)"
    using len by (intro tree_levels_child[of 0]) auto
  moreover have "insert_all (Suc D) (OctreeNode ?b 0 [] [] 0 50000)
            (qs @ [((1, 1, 1), a1), ((1 / 2048, 0, 0), a2)]) =
          Some (OctreeNode ?b 0 [] (?kids'[0 := t]) 50002 50000)"
    using fill insF insQ assms(1) by (simp add: insert_all_append del: insert_point.simps subdivide.simps)
  ultimately show ?thesis unfolding D by blast
qed

lemma min_list_real_Min: "xs \<noteq> [] \<Longrightarrow> min_list_real xs = Min (set xs)"
  by (cases xs) (simp_all add: min_list_real_def Min.set_eq_fold[symmetric])

lemma max_list_real_Max: "xs \<noteq> [] \<Longrightarrow> max_list_real xs = Max (set xs)"
  by (cases xs) (simp_all add: max_list_real_def Max.set_eq_fold[symmetric])

text \<open>
  C4. The octree has no depth cap. With \<open>max_level = 10\<close>, 50000 points at the origin
  followed by \<open>(1, 1, 1)\<close> and \<open>(1/2048, 0, 0)\<close> give, with twelve stack frames or more, a
  tree that has a node at level 11: the full leaves at levels 1 to 10 each subdivide in
  turn when the last point arrives.
\<close>

theorem build_octree_exceeds_max_level:
  "\<exists>t. build_octree (12 + d)
         \<lparr>las_points = replicate 50000 (0, 0, 0) @ [(1, 1, 1), (1 / 2048, 0, 0)],
          intensity = None, classification = None, colors = None\<rparr> 10 = Inr t
       \<and> 11 \<in> tree_levels t"
proof -
  let ?pts = "replicate 50000 (0, 0, 0) @ [(1, 1, 1), (1 / 2048, 0, 0)] :: point list"
  let ?self = "\<lparr>las_points = ?pts, intensity = None, classification = None, colors = None\<rparr>"
  let ?f = "\<lambda>i. (?pts ! i, point_attributes ?self i)"
  let ?qs = "map ?f [0..<50000]"
  have lenp: "length ?pts = Suc (Suc 50000)" by simp
  have u1: "[0..<Suc 50000] = [0..<50000] @ [50000]"
    by (rule upt_Suc_append) simp
  have u2: "[0..<Suc (Suc 50000)] = [0..<Suc 50000] @ [Suc 50000]"
    by (rule upt_Suc_append) simp
  have upt: "[0..<Suc (Suc 50000)] = [0..<50000] @ [50000, 50001]"
    unfolding u2 u1 by simp
  have n0: "?pts ! 50000 = (1, 1, 1)" by (simp add: nth_append)
  have n1: "?pts ! 50001 = (1 / 2048, 0, 0)" by (simp add: nth_append)
  have split: "map ?f [0..<length ?pts] =
      ?qs @ [((1, 1, 1), point_attributes ?self 50000),
             ((1 / 2048, 0, 0), point_attributes ?self 50001)]"
    unfolding lenp upt map_append using n0 n1 by (simp del: upt_rec_numeral)
  have len: "length ?qs = 50000" by (simp del: upt_rec_numeral)
  have same: "\<forall>x \<in> set ?qs. fst x = (0, 0, 0)"
    by (auto simp add: nth_append simp del: upt_rec_numeral)
  have bx: "min_list_real (map px ?pts) = 0" "max_list_real (map px ?pts) = 1"
    "min_list_real (map py ?pts) = 0" "max_list_real (map py ?pts) = 1"
    "min_list_real (map pz ?pts) = 0" "max_list_real (map pz ?pts) = 1"
    by (simp_all add: min_list_real_Min max_list_real_Max px_def py_def pz_def)
  from insert_all_deep[OF len same, of d "point_attributes ?self 50000"
      "point_attributes ?self 50001"]
  obtain t where t: "insert_all (12 + d) (OctreeNode (0, 1, 0, 1, 0, 1) 0 [] [] 0 50000)
      (?qs @ [((1, 1, 1), point_attributes ?self 50000),
              ((1 / 2048, 0, 0), point_attributes ?self 50001)]) = Some t"
    and lv: "11 \<in> tree_levels t" by blast
  have "build_octree (12 + d) ?self 10 = Inr t"
    unfolding build_octree_def Let_def OctreeNode_init_def
    using split bx t by (simp del: upt_rec_numeral insert_all.simps)
  with lv show ?thesis by blast
qed

section \<open>Tiles\<close>

lemma tile_buckets_filter:
  "tile_buckets pts min_x min_y tiles k =
     (let new = filter (\<lambda>p. compute_tile_index (px p) (py p) min_x min_y = k) pts
      in if new = [] then tiles k
         else Some ((case tiles k of None \<Rightarrow> [] | Some l \<Rightarrow> l) @ new))"
  by (induction pts arbitrary: tiles) (auto simp add: Let_def split: option.splits)

text \<open>
  The sibling tiling does partition the points: the bucket of a key holds exactly the
  points whose index is that key, in input order.
\<close>

lemma tile_buckets_partition:
  "tile_buckets pts min_x min_y Map.empty k =
     (let new = filter (\<lambda>p. compute_tile_index (px p) (py p) min_x min_y = k) pts
      in if new = [] then None else Some new)"
  by (simp add: tile_buckets_filter Let_def)

text \<open>
  C2. \<open>generate_tiles\<close> of \<open>lidar_advanced.py\<close> does not partition the points. On the two
  points \<open>(0, 0, 0)\<close> and \<open>(100, 100, 0)\<close> with \<open>tile_size = 100\<close> the loops
  \<open>while x < max_x\<close>, \<open>while y < max_y\<close> produce the single tile \<open>[0, 100) \<times> [0, 100)\<close>, and
  the point on the maximal boundary is in no tile.
\<close>

theorem generate_tiles_drops_max_boundary_point:
  "generate_tiles [(0, 0, 0), (100, 100, 0)] 100 =
     Some (Inr [\<lparr>tile_bounds = (0, 100, 0, 100), tile_point_count = 1,
                 tile_points = [(0, 0, 0)], tile_center = (50, 50)\<rparr>])"
  by (simp add: generate_tiles_def min_list_real_def max_list_real_def px_def py_def
        tiles_x_loop.simps tiles_y_loop.simps)

section \<open>Rasters\<close>

lemmas raster_defs = fill_nan_grid_def generic_filter3_def window3_def nan_mean_def padded_at_def
  nrows_def ncols_def min_list_real_def max_list_real_def px_def py_def pz_def py_int_def
  grid_dims_def set_cell_def

lemma height_model_3x3:
  "grid_sub (grid dsm3) (grid dtm3) =
     Inr [[Some 0, Some 0, Some 0], [Some 0, Some 5, Some 0], [Some 0, Some 0, Some 0]]"
  by (simp add: grid_sub_def dsm3_def dtm3_def broadcast_dim_def sub_cell_def nrows_def ncols_def
        eval_nat_numeral)

lemma label_3x3:
  "label [[False, False, False], [False, True, False], [False, False, False]] =
     ([[0, 0, 0], [0, 1, 0], [0, 0, 0]], 1)"
  by (simp add: label_def label_step_def all_cells_def component_def in_mask_def neighbours4_def
        nrows_def ncols_def eval_nat_numeral)

lemma building_mask_3x3:
  "building_mask [[Some 0, Some 0, Some 0], [Some 0, Some 5, Some 0], [Some 0, Some 0, Some 0]] =
     [[False, False, False], [False, True, False], [False, False, False]]"
  by (simp add: building_mask_def building_threshold_def)

lemma component_cells_3x3: "component_cells [[0, 0, 0], [0, 1, 0], [0, 0, 0]] 1 = [(1, 1)]"
  by (simp add: component_cells_def all_cells_def nrows_def ncols_def)

lemma building_heights_3x3: "calculate_building_heights dtm3 dsm3 = Inr []"
  by (simp add: calculate_building_heights_def height_model_3x3 building_mask_3x3 label_3x3
        building_stats_def component_cells_def all_cells_def nrows_def ncols_def)

lemma building_stats_min_size:
  "length (building_stats dtm height_model labeled bid) =
     (if length (component_cells labeled bid) < 10 then 0 else 1)"
  by (simp add: building_stats_def Let_def split: prod.splits)

lemma dtm_cloud3:
  "generate_dtm cloud3 1 =
     Some (Inr \<lparr>grid = [[Some 0, Some 0]], resolution = 1, raster_bounds = (0, 1, 0, 0),
                 shape = (1, 2)\<rparr>)"
  by (simp add: generate_dtm_def extract_ground_points_def cloud3_def dtm_point_def raster_defs
        Let_def eval_nat_numeral)

lemma dsm_cloud3:
  "generate_dsm cloud3 1 =
     Inr \<lparr>grid = [[Some 0, Some 2, Some 3]], resolution = 1, raster_bounds = (0, 2, 0, 0),
           shape = (1, 3)\<rparr>"
  by (simp add: generate_dsm_def cloud3_def dsm_point_def raster_defs Let_def eval_nat_numeral)

lemma sub_cloud3:
  "calculate_building_heights
      \<lparr>grid = [[Some 0, Some 0]], resolution = 1, raster_bounds = (0, 1, 0, 0), shape = (1, 2)\<rparr>
      \<lparr>grid = [[Some 0, Some 2, Some 3]], resolution = 1, raster_bounds = (0, 2, 0, 0),
           shape = (1, 3)\<rparr> = Inl ValueError"
  by (simp add: calculate_building_heights_def grid_sub_def broadcast_dim_def nrows_def ncols_def)

text \<open>
  C6. Gap-filling does not leave the valid cells alone: the filter is applied to every
  cell, so on the grid \<open>[[0, 3]]\<close>, which has no missing cell, both cells become 1.5.
\<close>

theorem fill_nan_grid_changes_valid_cells:
  "fill_nan_grid [[Some 0, Some 3]] = [[Some (3 / 2), Some (3 / 2)]]"
  by (simp add: fill_nan_grid_def generic_filter3_def window3_def nan_mean_def padded_at_def
        nrows_def ncols_def)

text \<open>
  C3 as stated: on the 3 x 3 scenario the segmentation does not return exactly one
  candidate.
\<close>

theorem building_heights_3x3_not_one_candidate:
  "length (case calculate_building_heights dtm3 dsm3 of Inl e \<Rightarrow> [] | Inr bs \<Rightarrow> bs) \<noteq> 1"
  by (simp add: building_heights_3x3)

text \<open>
  C3, amended. On the 3 x 3 scenario (resolution 1, DTM all zeros, DSM 5 at the centre,
  threshold 2.0) the height model \<open>DSM - DTM\<close> is 5 at the centre and 0 elsewhere, the
  labelling of its mask finds one component, of the single cell (1, 1), and building
  segmentation returns no candidate: a component yields a candidate exactly when it has
  at least 10 cells.
\<close>

theorem building_heights_3x3_no_candidate:
  "grid_sub (grid dsm3) (grid dtm3) =
     Inr [[Some 0, Some 0, Some 0], [Some 0, Some 5, Some 0], [Some 0, Some 0, Some 0]]
   \<and> label (building_mask
        [[Some 0, Some 0, Some 0], [Some 0, Some 5, Some 0], [Some 0, Some 0, Some 0]]) =
     ([[0, 0, 0], [0, 1, 0], [0, 0, 0]], 1)
   \<and> component_cells [[0, 0, 0], [0, 1, 0], [0, 0, 0]] 1 = [(1, 1)]
   \<and> calculate_building_heights dtm3 dsm3 = Inr []
   \<and> length (building_stats dtm height_model labeled bid) =
     (if length (component_cells labeled bid) < 10 then 0 else 1)"
  by (simp only: height_model_3x3 building_mask_3x3 label_3x3 component_cells_3x3
        building_heights_3x3 building_stats_min_size simp_thms)

text \<open>
  C10. The DTM and the DSM of one cloud at one resolution need not have the same shape
  and bounds. For the ground points \<open>(0, 0, 0)\<close>, \<open>(1, 0, 0)\<close> and the roof point
  \<open>(2, 0, 6)\<close> at resolution 1, the DTM has shape \<open>(1, 2)\<close> over \<open>x \<in> [0, 1]\<close>, the DSM shape
  \<open>(1, 3)\<close> over \<open>x \<in> [0, 2]\<close>, and the subtraction of building-height analysis fails.
\<close>

theorem dtm_dsm_shapes_differ:
  "generate_dtm cloud3 1 =
     Some (Inr \<lparr>grid = [[Some 0, Some 0]], resolution = 1, raster_bounds = (0, 1, 0, 0),
                 shape = (1, 2)\<rparr>)
   \<and> generate_dsm cloud3 1 =
     Inr \<lparr>grid = [[Some 0, Some 2, Some 3]], resolution = 1, raster_bounds = (0, 2, 0, 0),
           shape = (1, 3)\<rparr>
   \<and> calculate_building_heights
      \<lparr>grid = [[Some 0, Some 0]], resolution = 1, raster_bounds = (0, 1, 0, 0), shape = (1, 2)\<rparr>
      \<lparr>grid = [[Some 0, Some 2, Some 3]], resolution = 1, raster_bounds = (0, 2, 0, 0),
           shape = (1, 3)\<rparr> = Inl ValueError"
  using dtm_cloud3 dsm_cloud3 sub_cloud3 by simp

section \<open>Viewshed\<close>














section \<open>Sampling\<close>

lemma permutation_prefix:
  assumes "distinct perm" "set perm = {..<n}" "k \<le> n"
  shows "length (take k perm) = k \<and> distinct (take k perm) \<and> (\<forall>i \<in> set (take k perm). i < n)"
proof -
  from assms(1,2) have "length perm = n" using distinct_card[of perm] by simp
  with assms(3) have "length (take k perm) = k" by simp
  moreover have "distinct (take k perm)" using assms(1) by simp
  moreover have "\<forall>i \<in> set (take k perm). i < n"
    using assms(2) by (auto dest: in_set_takeD)
  ultimately show ?thesis by blast
qed

lemma sample_indices_las3: "sample_indices las3 10 [2, 0, 1] = Inr [2, 0, 1]"
  by (simp add: sample_indices_def clamp_sample_size_def random_choice_def las3_def)

lemma get_lidar_sample_existing_file:
  "get_lidar_sample (Some las) sample_size perm = Inl (HTTPException 500)"
  by (simp add: get_lidar_sample_def scaled_view_tolist_def split: sum.splits)

text \<open>
  C8 as stated: a request for 10 points from a file of 3 points is not refused for its
  size. The size is clamped to 3 and three indices are drawn; the error the endpoint then
  surfaces is the 500 of \<open>tolist\<close>, the same as for a request of 2 points.
\<close>

theorem sample_larger_than_cloud_is_not_an_error:
  "sample_indices las3 10 [2, 0, 1] = Inr [2, 0, 1]
   \<and> get_lidar_sample (Some las3) 10 [2, 0, 1] = Inl (HTTPException 500)
   \<and> get_lidar_sample (Some las3) 2 [2, 0, 1] = Inl (HTTPException 500)"
  by (simp only: sample_indices_las3 get_lidar_sample_existing_file simp_thms)

text \<open>
  C8, amended. A requested sample size larger than the number of points is not rejected:
  it is clamped to \<open>min(50000, number of points)\<close> and the indices are drawn for the clamped
  size, that many indices, distinct and in range, when the generator draws a permutation
  of the point indices. What the endpoint returns afterwards is left out.
\<close>

theorem sample_indices_clamps:
  assumes "int (length (las_x las)) < sample_size"
    and "distinct perm" "set perm = {..<length (las_x las)}"
  shows "sample_indices las sample_size perm = Inr (take (min 50000 (length (las_x las))) perm)
           \<and> length (take (min 50000 (length (las_x las))) perm) = min 50000 (length (las_x las))
           \<and> distinct (take (min 50000 (length (las_x las))) perm)
           \<and> (\<forall>i \<in> set (take (min 50000 (length (las_x las))) perm). i < length (las_x las))"
proof -
  let ?n = "length (las_x las)"
  have c: "clamp_sample_size las sample_size = int (min 50000 ?n)"
    using assms(1) by (simp add: clamp_sample_size_def min_def)
  have "sample_indices las sample_size perm = Inr (take (min 50000 ?n) perm)"
    unfolding sample_indices_def c by (simp add: random_choice_def)
  moreover have "min 50000 ?n \<le> ?n" by simp
  note permutation_prefix[OF assms(2,3) this]
  ultimately show ?thesis by blast
qed

theorem sample_indices_clamps_witness:
  "int (length (las_x las3)) < 10 \<and> distinct [2, 0, 1 :: nat]
   \<and> set [2, 0, 1 :: nat] = {..<length (las_x las3)}
   \<and> sample_indices las3 10 [2, 0, 1] = Inr [2, 0, 1]"
proof -
  have h: "int (length (las_x las3)) < 10" "distinct [2, 0, 1 :: nat]"
    "set [2, 0, 1 :: nat] = {..<length (las_x las3)}"
    by (auto simp add: las3_def)
  from sample_indices_clamps[OF h] h show ?thesis by (simp add: las3_def)
qed






end
